theory Spec2Isabelle
  imports Main
begin

section \<open>Python values, as far as the tester touches them\<close>

text \<open>
  The tester of \<^verbatim>\<open>pyrestest/tester.py\<close> handles payload values, item attributes and
  identifiers only through \<^verbatim>\<open>str(...)\<close>, \<^verbatim>\<open>!=\<close> and truthiness (\<^verbatim>\<open>if user\<close>,
  \<^verbatim>\<open>user_id or uuid.uuid4()\<close>). The values are \<^verbatim>\<open>None\<close>, booleans, unbounded integers,
  strings, UUID objects and the decimals built from an integer (\<^verbatim>\<open>Decimal(7)\<close>). A UUID
  is carried by its canonical text, which is what \<^verbatim>\<open>str\<close> prints and what its equality
  compares; \<^verbatim>\<open>Decimal(i)\<close> prints as the integer \<^verbatim>\<open>i\<close> and is equal to it. No property
  below depends on these being all the values there are.
\<close>

datatype pyval = PNone | PBool bool | PInt int | PStr string | PUuid string | PDecimal int

datatype pytype = NoneType | BoolT | IntT | StrT | UuidT | DecimalT

fun py_type :: "pyval \<Rightarrow> pytype" where
  "py_type PNone = NoneType"
| "py_type (PBool b) = BoolT"
| "py_type (PInt i) = IntT"
| "py_type (PStr s) = StrT"
| "py_type (PUuid u) = UuidT"
| "py_type (PDecimal i) = DecimalT"

definition digit_char :: "nat \<Rightarrow> char" where
  "digit_char d = ''0123456789'' ! d"

function str_nat :: "nat \<Rightarrow> string" where
  "str_nat n = (if n < 10 then [digit_char n] else str_nat (n div 10) @ [digit_char (n mod 10)])"
  by pat_completeness auto
termination
  by (relation "measure (\<lambda>n. n)") auto

declare str_nat.simps [simp del]

definition str_int :: "int \<Rightarrow> string" where
  "str_int i = (if i < 0 then CHR ''-'' # str_nat (nat (- i)) else str_nat (nat i))"

text \<open>\<^verbatim>\<open>str(x)\<close>.\<close>

fun py_str :: "pyval \<Rightarrow> string" where
  "py_str PNone = ''None''"
| "py_str (PBool b) = (if b then ''True'' else ''False'')"
| "py_str (PInt i) = str_int i"
| "py_str (PStr s) = s"
| "py_str (PUuid u) = u"
| "py_str (PDecimal i) = str_int i"

text \<open>
  \<^verbatim>\<open>x == y\<close> and \<^verbatim>\<open>x != y\<close>. A boolean is an integer in Python (\<^verbatim>\<open>True == 1\<close>), and
  an integer and a decimal are compared by value (\<^verbatim>\<open>Decimal(7) == 7\<close>); the other pairs
  of values of different types are unequal.
\<close>

fun py_eq :: "pyval \<Rightarrow> pyval \<Rightarrow> bool" where
  "py_eq PNone PNone = True"
| "py_eq (PBool a) (PBool b) = (a = b)"
| "py_eq (PBool a) (PInt j) = ((if a then 1 else 0) = j)"
| "py_eq (PInt i) (PBool b) = (i = (if b then 1 else 0))"
| "py_eq (PInt i) (PInt j) = (i = j)"
| "py_eq (PStr s) (PStr t) = (s = t)"
| "py_eq (PUuid u) (PUuid v) = (u = v)"
| "py_eq (PDecimal i) (PDecimal j) = (i = j)"
| "py_eq (PDecimal i) (PInt j) = (i = j)"
| "py_eq (PInt i) (PDecimal j) = (i = j)"
| "py_eq (PDecimal i) (PBool b) = (i = (if b then 1 else 0))"
| "py_eq (PBool a) (PDecimal j) = ((if a then 1 else 0) = j)"
| "py_eq _ _ = False"

definition py_ne :: "pyval \<Rightarrow> pyval \<Rightarrow> bool" where
  "py_ne x y = (\<not> py_eq x y)"

text \<open>Truth value of \<^verbatim>\<open>x\<close> in \<^verbatim>\<open>if x\<close> and \<^verbatim>\<open>x or y\<close>.\<close>

fun py_bool :: "pyval \<Rightarrow> bool" where
  "py_bool PNone = False"
| "py_bool (PBool b) = b"
| "py_bool (PInt i) = (i \<noteq> 0)"
| "py_bool (PStr s) = (s \<noteq> [])"
| "py_bool (PUuid u) = True"
| "py_bool (PDecimal i) = (i \<noteq> 0)"

section \<open>Failures\<close>

text \<open>
  A failed \<^verbatim>\<open>assert\<close> raises \<^verbatim>\<open>AssertionError\<close>; the unimplemented members raise
  \<^verbatim>\<open>NotImplementedError\<close>; reading a missing attribute or key raises
  \<^verbatim>\<open>AttributeError\<close> or \<^verbatim>\<open>KeyError\<close>; instantiating a class that still has
  abstract methods raises \<^verbatim>\<open>TypeError\<close>. A test case returns \<open>Inr ()\<close> when it passes.
\<close>

datatype error = AssertionError | NotImplementedError | AttributeError | KeyError | TypeError

type_synonym outcome = "error + unit"

section \<open>Payloads and items\<close>

text \<open>
  A payload is a \<^verbatim>\<open>dict\<close> from field name to value, in insertion order; an item is an
  object whose attributes are read by name with \<^verbatim>\<open>getattr\<close>.
\<close>

type_synonym payload = "(string \<times> pyval) list"
type_synonym item = "(string \<times> pyval) list"

definition dict_keys :: "payload \<Rightarrow> string list" where
  "dict_keys d = map fst d"

definition py_getitem :: "payload \<Rightarrow> string \<Rightarrow> error + pyval" where
  "py_getitem d key = (case map_of d key of None \<Rightarrow> Inl KeyError | Some v \<Rightarrow> Inr v)"

definition py_getattr :: "item \<Rightarrow> string \<Rightarrow> error + pyval" where
  "py_getattr obj name = (case map_of obj name of None \<Rightarrow> Inl AttributeError | Some v \<Rightarrow> Inr v)"

subsection \<open>\<^verbatim>\<open>RestTester.assert_equal_item\<close>\<close>

text \<open>
  \<^verbatim>\<open>for key in data.keys(): assert str(getattr(item, key)) == str(data[key])\<close>.
  The loop ends at the first key that raises.
\<close>

fun assert_equal_item_loop :: "item \<Rightarrow> payload \<Rightarrow> string list \<Rightarrow> outcome" where
  "assert_equal_item_loop item data [] = Inr ()"
| "assert_equal_item_loop item data (key # keys) =
     (case py_getattr item key of
        Inl e \<Rightarrow> Inl e
      | Inr a \<Rightarrow>
          (case py_getitem data key of
             Inl e \<Rightarrow> Inl e
           | Inr d \<Rightarrow>
               if py_str a = py_str d then assert_equal_item_loop item data keys
               else Inl AssertionError))"

definition assert_equal_item :: "item \<Rightarrow> payload \<Rightarrow> outcome" where
  "assert_equal_item item data = assert_equal_item_loop item data (dict_keys data)"

section \<open>The endpoint accessor\<close>

text \<open>
  The identity that \<^verbatim>\<open>auth_user\<close> builds: \<^verbatim>\<open>AUTH_USER_MODEL\<close> is called with exactly
  these six keyword arguments, and the identity is the record of them.
\<close>

record auth_identity =
  uuid :: string
  email :: string
  groups :: "pyval list"
  is_active :: bool
  is_staff :: bool
  subscription :: payload

text \<open>
  The test client of the host framework keeps the identity that
  \<^verbatim>\<open>force_authenticate\<close> was last given; a fresh client has none. Every request it
  sends carries that identity, and a request without one is anonymous.
\<close>

record api_client =
  force_user :: "auth_identity option"

definition APIClient :: api_client where
  "APIClient = \<lparr>force_user = None\<rparr>"

definition force_authenticate :: "api_client \<Rightarrow> auth_identity option \<Rightarrow> api_client" where
  "force_authenticate c u = c\<lparr>force_user := u\<rparr>"

datatype http_method = GET | POST | PUT | DELETE

record request =
  req_method :: http_method
  req_url :: string
  req_body :: "payload option"
  req_user :: "auth_identity option"

record response =
  status_code :: int
  data :: payload

definition client_request ::
  "api_client \<Rightarrow> http_method \<Rightarrow> string \<Rightarrow> payload option \<Rightarrow> request" where
  "client_request c m u b = \<lparr>req_method = m, req_url = u, req_body = b, req_user = force_user c\<rparr>"

text \<open>
  A concrete subclass of \<^verbatim>\<open>RestTester\<close> together with the host it runs on. The
  collaborators are not part of the library: the model manager (\<^verbatim>\<open>MODEL.objects\<close>), the
  \<^verbatim>\<open>id\<close> attribute of the identity class, the two payload hooks, \<^verbatim>\<open>uuid.uuid4\<close>, the route
  resolver \<^verbatim>\<open>reverse\<close> and the API under test behind the client. Those with an effect
  take the state \<open>'w\<close> of the host (database, random source) and return it updated.
\<close>

record 'w rest_tester =
  MODEL_objects_create :: "payload \<Rightarrow> 'w \<Rightarrow> item \<times> 'w"
  MODEL_objects_get :: "pyval \<Rightarrow> 'w \<Rightarrow> item \<times> 'w"
  MODEL_objects_all :: "'w \<Rightarrow> item list"
  AUTH_USER_MODEL_id :: "auth_identity \<Rightarrow> pyval"
  BASENAME :: string
  READONLY_FIELDS :: "string list"
  get_create_payload :: "pyval \<Rightarrow> 'w \<Rightarrow> payload \<times> 'w"
  get_update_payload :: "payload \<Rightarrow> bool \<Rightarrow> 'w \<Rightarrow> payload \<times> 'w"
  uuid4 :: "'w \<Rightarrow> string \<times> 'w"
  reverse :: "string \<Rightarrow> pyval option \<Rightarrow> string"
  api :: "request \<Rightarrow> 'w \<Rightarrow> response \<times> 'w"

record endpoint =
  basename :: string
  client :: api_client

text \<open>\<^verbatim>\<open>Endpoint.__init__\<close>.\<close>

definition Endpoint :: "string \<Rightarrow> endpoint" where
  "Endpoint b = \<lparr>basename = b, client = APIClient\<rparr>"

definition list_url :: "'w rest_tester \<Rightarrow> endpoint \<Rightarrow> string" where
  "list_url t ep = reverse t (basename ep @ ''-list'') None"

definition detail_url :: "'w rest_tester \<Rightarrow> endpoint \<Rightarrow> pyval \<Rightarrow> string" where
  "detail_url t ep pk = reverse t (basename ep @ ''-detail'') (Some pk)"

text \<open>
  \<^verbatim>\<open>if user: self._client.force_authenticate(user)\<close>. The argument is \<^verbatim>\<open>None\<close> or an
  identity object; an object is true, \<^verbatim>\<open>None\<close> is false.
\<close>

definition set_user :: "endpoint \<Rightarrow> auth_identity option \<Rightarrow> endpoint" where
  "set_user ep user =
     (if user \<noteq> None then ep\<lparr>client := force_authenticate (client ep) user\<rparr> else ep)"

definition get :: "'w rest_tester \<Rightarrow> endpoint \<Rightarrow> pyval \<Rightarrow> 'w \<Rightarrow> response \<times> 'w" where
  "get t ep pk = api t (client_request (client ep) GET (detail_url t ep pk) None)"

definition get_items :: "'w rest_tester \<Rightarrow> endpoint \<Rightarrow> 'w \<Rightarrow> response \<times> 'w" where
  "get_items t ep = api t (client_request (client ep) GET (list_url t ep) None)"

definition post :: "'w rest_tester \<Rightarrow> endpoint \<Rightarrow> payload \<Rightarrow> 'w \<Rightarrow> response \<times> 'w" where
  "post t ep p = api t (client_request (client ep) POST (list_url t ep) (Some p))"

definition put :: "'w rest_tester \<Rightarrow> endpoint \<Rightarrow> pyval \<Rightarrow> payload \<Rightarrow> 'w \<Rightarrow> response \<times> 'w" where
  "put t ep pk p = api t (client_request (client ep) PUT (detail_url t ep pk) (Some p))"

definition delete :: "'w rest_tester \<Rightarrow> endpoint \<Rightarrow> pyval \<Rightarrow> 'w \<Rightarrow> response \<times> 'w" where
  "delete t ep pk = api t (client_request (client ep) DELETE (detail_url t ep pk) None)"

section \<open>The test suite\<close>

text \<open>\<^verbatim>\<open>setup_method\<close>: a fresh accessor for every test case.\<close>

definition setup_method :: "'w rest_tester \<Rightarrow> endpoint" where
  "setup_method t = Endpoint (BASENAME t)"

text \<open>
  \<^verbatim>\<open>auth_user(user_id=None, email='foo@example.com', subscription={})\<close>. An argument
  left out is \<open>None\<close> here (\<open>PNone\<close> for \<^verbatim>\<open>user_id\<close>, whose default is \<^verbatim>\<open>None\<close>).
  \<^verbatim>\<open>uuid.uuid4()\<close> is called only when \<^verbatim>\<open>user_id\<close> is false. The default of
  \<^verbatim>\<open>subscription\<close> is the one dictionary made when the function is defined; nothing in
  the library writes to it, and it is taken as empty.
\<close>

definition auth_user ::
  "'w rest_tester \<Rightarrow> pyval \<Rightarrow> string option \<Rightarrow> payload option \<Rightarrow> 'w \<Rightarrow> auth_identity \<times> 'w" where
  "auth_user t user_id e s w =
     (let (ident, w') = (if py_bool user_id then (user_id, w)
                         else (let (u, w1) = uuid4 t w in (PUuid u, w1)))
      in (\<lparr>uuid = py_str ident,
           email = (case e of None \<Rightarrow> ''foo@example.com'' | Some a \<Rightarrow> a),
           groups = [],
           is_active = True,
           is_staff = False,
           subscription = (case s of None \<Rightarrow> [] | Some d \<Rightarrow> d)\<rparr>, w'))"







text \<open>The bodies of the three members that only raise.\<close>

definition test_create :: outcome where
  "test_create = Inl NotImplementedError"

definition test_list_by_owner :: outcome where
  "test_list_by_owner = Inl NotImplementedError"

definition test_delete :: outcome where
  "test_delete = Inl NotImplementedError"

text \<open>\<^verbatim>\<open>test_get_by_owner\<close>.\<close>

definition test_get_by_owner :: "'w rest_tester \<Rightarrow> 'w \<Rightarrow> outcome" where
  "test_get_by_owner t w =
     (let ep = setup_method t;
          (u, w1) = uuid4 t w;
          user_id = PUuid u;
          (payload, w2) = get_create_payload t user_id w1;
          (item, w3) = MODEL_objects_create t payload w2;
          (user, w4) = auth_user t user_id None None w3;
          ep1 = set_user ep (Some user)
      in case py_getattr item ''id'' of
           Inl e \<Rightarrow> Inl e
         | Inr pk \<Rightarrow>
             (let (response, w5) = get t ep1 pk w4
              in if status_code response = 200 then assert_equal_item item (data response)
                 else Inl AssertionError))"

text \<open>\<^verbatim>\<open>test_anonymous_user_not_allowed\<close>: \<^verbatim>\<open>get_create_payload()\<close>, no \<^verbatim>\<open>set_user\<close>.\<close>

definition test_anonymous_user_not_allowed :: "'w rest_tester \<Rightarrow> 'w \<Rightarrow> outcome" where
  "test_anonymous_user_not_allowed t w =
     (let ep = setup_method t;
          (payload, w1) = get_create_payload t PNone w;
          (item, w2) = MODEL_objects_create t payload w1
      in case py_getattr item ''id'' of
           Inl e \<Rightarrow> Inl e
         | Inr pk \<Rightarrow>
             (let (response, w3) = get t ep pk w2
              in if status_code response = 401 then Inr () else Inl AssertionError))"

text \<open>\<^verbatim>\<open>test_get_non_owner_not_allowed\<close>: the caller's identifier is a second \<^verbatim>\<open>uuid4()\<close>.\<close>

definition test_get_non_owner_not_allowed :: "'w rest_tester \<Rightarrow> 'w \<Rightarrow> outcome" where
  "test_get_non_owner_not_allowed t w =
     (let ep = setup_method t;
          (u, w1) = uuid4 t w;
          (payload, w2) = get_create_payload t (PUuid u) w1;
          (item, w3) = MODEL_objects_create t payload w2;
          (u', w4) = uuid4 t w3;
          (user, w5) = auth_user t (PUuid u') None None w4;
          ep1 = set_user ep (Some user)
      in case py_getattr item ''id'' of
           Inl e \<Rightarrow> Inl e
         | Inr pk \<Rightarrow>
             (let (response, w6) = get t ep1 pk w5
              in if status_code response = 403 then Inr () else Inl AssertionError))"

text \<open>
  \<^verbatim>\<open>_update(owner, auth_user, readonly=False)\<close> returns
  \<^verbatim>\<open>(item.id, payload, response)\<close>, here with the state of the host after the call.
\<close>

definition update ::
  "'w rest_tester \<Rightarrow> endpoint \<Rightarrow> auth_identity \<Rightarrow> auth_identity option \<Rightarrow> bool \<Rightarrow> 'w
     \<Rightarrow> error + ((pyval \<times> payload \<times> response) \<times> 'w)" where
  "update t ep owner user readonly w =
     (let (payload, w1) = get_create_payload t (AUTH_USER_MODEL_id t owner) w;
          (item, w2) = MODEL_objects_create t payload w1;
          (payload', w3) = get_update_payload t payload readonly w2;
          ep1 = set_user ep user
      in case py_getattr item ''id'' of
           Inl e \<Rightarrow> Inl e
         | Inr pk \<Rightarrow>
             (let (response, w4) = put t ep1 pk payload' w3
              in Inr ((pk, payload', response), w4)))"

text \<open>\<^verbatim>\<open>test_put_owner\<close>.\<close>

definition test_put_owner :: "'w rest_tester \<Rightarrow> 'w \<Rightarrow> outcome" where
  "test_put_owner t w =
     (let ep = setup_method t;
          (owner, w1) = auth_user t PNone None None w
      in case update t ep owner (Some owner) False w1 of
           Inl e \<Rightarrow> Inl e
         | Inr ((item_id, payload, response), w2) \<Rightarrow>
             if status_code response = 200
             then (let (item, w3) = MODEL_objects_get t item_id w2
                   in assert_equal_item item payload)
             else Inl AssertionError)"

text \<open>\<^verbatim>\<open>test_anonymous_not_allowed\<close>: the update with \<^verbatim>\<open>auth_user=None\<close>.\<close>

definition test_anonymous_not_allowed :: "'w rest_tester \<Rightarrow> 'w \<Rightarrow> outcome" where
  "test_anonymous_not_allowed t w =
     (let ep = setup_method t;
          (owner, w1) = auth_user t PNone None None w
      in case update t ep owner None False w1 of
           Inl e \<Rightarrow> Inl e
         | Inr ((item_id, payload, response), w2) \<Rightarrow>
             if status_code response = 401 then Inr () else Inl AssertionError)"

text \<open>
  The loop of \<^verbatim>\<open>test_readonly_fields\<close>:
  \<^verbatim>\<open>for key in self.READONLY_FIELDS: assert getattr(item, key) != payload[key]\<close>.
\<close>

fun readonly_fields_loop :: "item \<Rightarrow> payload \<Rightarrow> string list \<Rightarrow> outcome" where
  "readonly_fields_loop item payload [] = Inr ()"
| "readonly_fields_loop item payload (key # keys) =
     (case py_getattr item key of
        Inl e \<Rightarrow> Inl e
      | Inr a \<Rightarrow>
          (case py_getitem payload key of
             Inl e \<Rightarrow> Inl e
           | Inr d \<Rightarrow>
               if py_ne a d then readonly_fields_loop item payload keys
               else Inl AssertionError))"

definition test_readonly_fields :: "'w rest_tester \<Rightarrow> 'w \<Rightarrow> outcome" where
  "test_readonly_fields t w =
     (let ep = setup_method t;
          (owner, w1) = auth_user t PNone None None w
      in case update t ep owner (Some owner) True w1 of
           Inl e \<Rightarrow> Inl e
         | Inr ((item_id, payload, response), w2) \<Rightarrow>
             if status_code response = 200
             then (let (item, w3) = MODEL_objects_get t item_id w2
                   in case readonly_fields_loop item payload (READONLY_FIELDS t) of
                        Inl e \<Rightarrow> Inl e
                      | Inr _ \<Rightarrow>
                          if length (MODEL_objects_all t w3) = 1 then Inr ()
                          else Inl AssertionError)
             else Inl AssertionError)"

section \<open>A concrete suite\<close>

text \<open>
  A subclass for a profile resource, with a small ownership-scoped API behind it: the
  host state is the table of profiles and a counter that \<^verbatim>\<open>uuid4\<close> draws from. The API
  answers 401 to an anonymous request, 404 for an unknown profile, 403 to a caller who
  is not the owner, and on \<^verbatim>\<open>PUT\<close> by the owner updates every field except \<^verbatim>\<open>id\<close> and
  \<^verbatim>\<open>user_id\<close>. The test cases are run on it at concrete inputs.
\<close>

record world =
  db :: "item list"
  counter :: nat

definition profile_uuid4 :: "world \<Rightarrow> string \<times> world" where
  "profile_uuid4 w = (''u'' @ str_nat (counter w), w\<lparr>counter := Suc (counter w)\<rparr>)"

definition profile_create :: "payload \<Rightarrow> world \<Rightarrow> item \<times> world" where
  "profile_create p w =
     (let it = p @ [(''id'', PInt (int (length (db w)) + 1))] in (it, w\<lparr>db := db w @ [it]\<rparr>))"

definition profile_get :: "pyval \<Rightarrow> world \<Rightarrow> item \<times> world" where
  "profile_get pk w =
     (case filter (\<lambda>it. map_of it ''id'' = Some pk) (db w) of [] \<Rightarrow> ([], w) | it # _ \<Rightarrow> (it, w))"

definition profile_create_payload :: "pyval \<Rightarrow> world \<Rightarrow> payload \<times> world" where
  "profile_create_payload user_id w =
     (if py_bool user_id then ([(''user_id'', PStr (py_str user_id)), (''name'', PStr ''first'')], w)
      else (let (u, w1) = profile_uuid4 w
            in ([(''user_id'', PStr u), (''name'', PStr ''first'')], w1)))"

definition profile_update_payload :: "payload \<Rightarrow> bool \<Rightarrow> world \<Rightarrow> payload \<times> world" where
  "profile_update_payload p readonly w =
     (map (\<lambda>(k, v). if k = ''name'' then (k, PStr ''second'')
                     else if readonly \<and> k = ''user_id'' then (k, PStr ''intruder'')
                     else (k, v)) p, w)"

definition profile_reverse :: "string \<Rightarrow> pyval option \<Rightarrow> string" where
  "profile_reverse name pk =
     ''/'' @ name @ (case pk of None \<Rightarrow> ''/'' | Some v \<Rightarrow> ''/'' @ py_str v @ ''/'')"

definition profile_api :: "request \<Rightarrow> world \<Rightarrow> response \<times> world" where
  "profile_api req w =
     (case req_user req of
        None \<Rightarrow> (\<lparr>status_code = 401, data = []\<rparr>, w)
      | Some u \<Rightarrow>
          (case find (\<lambda>it. case map_of it ''id'' of
                              None \<Rightarrow> False
                            | Some pk \<Rightarrow> profile_reverse ''profile-detail'' (Some pk) = req_url req)
                     (db w) of
             None \<Rightarrow> (\<lparr>status_code = 404, data = []\<rparr>, w)
           | Some it \<Rightarrow>
               if map_of it ''user_id'' \<noteq> Some (PStr (uuid u))
               then (\<lparr>status_code = 403, data = []\<rparr>, w)
               else (case (req_method req, req_body req) of
                       (GET, _) \<Rightarrow> (\<lparr>status_code = 200, data = it\<rparr>, w)
                     | (PUT, Some b) \<Rightarrow>
                         (let it' = map (\<lambda>(k, v). if k = ''id'' \<or> k = ''user_id'' then (k, v)
                                                    else (case map_of b k of
                                                            None \<Rightarrow> (k, v)
                                                          | Some v' \<Rightarrow> (k, v'))) it
                          in (\<lparr>status_code = 200, data = it'\<rparr>,
                              w\<lparr>db := map (\<lambda>x. if x = it then it' else x) (db w)\<rparr>))
                     | _ \<Rightarrow> (\<lparr>status_code = 405, data = []\<rparr>, w))))"

definition profile_tester :: "world rest_tester" where
  "profile_tester =
     \<lparr>MODEL_objects_create = profile_create,
      MODEL_objects_get = profile_get,
      MODEL_objects_all = db,
      AUTH_USER_MODEL_id = (\<lambda>u. PStr (uuid u)),
      BASENAME = ''profile'',
      READONLY_FIELDS = [''user_id''],
      get_create_payload = profile_create_payload,
      get_update_payload = profile_update_payload,
      uuid4 = profile_uuid4,
      reverse = profile_reverse,
      api = profile_api\<rparr>"

definition world0 :: world where
  "world0 = \<lparr>db = [], counter = 0\<rparr>"

text \<open>The same suite in front of an API that answers every request with status 500.\<close>

definition unavailable_tester :: "world rest_tester" where
  "unavailable_tester =
     profile_tester\<lparr>api := (\<lambda>req w. (\<lparr>status_code = 500, data = []\<rparr>, w))\<rparr>"

section \<open>Theorems\<close>

subsection \<open>The stringwise comparison\<close>

lemma assert_equal_item_loop_ok:
  "assert_equal_item_loop item payload keys = Inr () \<longleftrightarrow>
     (\<forall>key \<in> set keys. \<exists>a d. py_getattr item key = Inr a \<and> py_getitem payload key = Inr d
        \<and> py_str a = py_str d)"
  by (induction keys) (auto split: sum.splits)

lemma assert_equal_item_loop_cong:
  "(\<And>key. key \<in> set keys \<Longrightarrow> py_getattr item key = py_getattr item' key) \<Longrightarrow>
   assert_equal_item_loop item payload keys = assert_equal_item_loop item' payload keys"
  by (induction keys) (auto split: sum.splits)

text \<open>
  C2. \<^verbatim>\<open>assert_equal_item\<close> goes through the keys of the payload and succeeds exactly
  when, for every one of them, the item has the attribute and the string form of the
  attribute equals the string form of the payload's value.
\<close>

theorem assert_equal_item_iff:
  "assert_equal_item item payload = Inr () \<longleftrightarrow>
     (\<forall>key \<in> set (dict_keys payload). \<exists>a d. py_getattr item key = Inr a
        \<and> py_getitem payload key = Inr d \<and> py_str a = py_str d)"
  unfolding assert_equal_item_def by (rule assert_equal_item_loop_ok)

lemma str_int_7: "str_int 7 = ''7''"
  by (simp add: str_int_def str_nat.simps digit_char_def)

theorem assert_equal_item_iff_witness:
  "assert_equal_item [(''id'', PInt 7), (''email'', PStr ''a@b'')] [(''id'', PStr ''7'')] = Inr ()"
proof -
  have "\<forall>key \<in> set (dict_keys [(''id'', PStr ''7'')]).
      \<exists>a d. py_getattr [(''id'', PInt 7), (''email'', PStr ''a@b'')] key = Inr a
        \<and> py_getitem [(''id'', PStr ''7'')] key = Inr d \<and> py_str a = py_str d"
    by (simp add: dict_keys_def py_getattr_def py_getitem_def str_int_7)
  with assert_equal_item_iff [of "[(''id'', PInt 7), (''email'', PStr ''a@b'')]" "[(''id'', PStr ''7'')]"]
  show ?thesis by blast
qed

text \<open>
  C9. \<^verbatim>\<open>assert_equal_item\<close> is one-sided: it reads the item only at the keys of the
  payload. Two items that agree on those attributes get the same verdict, whatever other
  attributes either of them has, so an attribute the payload does not name is never
  compared and cannot make the check fail.
\<close>

theorem assert_equal_item_one_sided:
  "(\<forall>key \<in> set (dict_keys payload). py_getattr item key = py_getattr item' key) \<Longrightarrow>
   assert_equal_item item payload = assert_equal_item item' payload"
  unfolding assert_equal_item_def by (rule assert_equal_item_loop_cong) simp

theorem assert_equal_item_one_sided_witness:
  "assert_equal_item [(''id'', PInt 7), (''secret'', PStr ''x'')] [(''id'', PStr ''7'')]
     = assert_equal_item [(''id'', PInt 7)] [(''id'', PStr ''7'')]"
proof -
  have h: "\<forall>key \<in> set (dict_keys [(''id'', PStr ''7'')]).
      py_getattr [(''id'', PInt 7), (''secret'', PStr ''x'')] key = py_getattr [(''id'', PInt 7)] key"
    by (simp add: dict_keys_def py_getattr_def)
  from assert_equal_item_one_sided [OF h] show ?thesis .
qed

subsection \<open>The read-only comparison\<close>

lemma str_int_0: "str_int 0 = ''0''"
  by (simp add: str_int_def str_nat.simps digit_char_def)

lemma str_int_1: "str_int 1 = ''1''"
  by (simp add: str_int_def str_nat.simps digit_char_def)

lemma readonly_fields_loop_ok:
  "readonly_fields_loop item payload keys = Inr () \<longleftrightarrow>
     (\<forall>key \<in> set keys. \<exists>a d. py_getattr item key = Inr a \<and> py_getitem payload key = Inr d
        \<and> py_ne a d)"
  by (induction keys) (auto split: sum.splits)

lemma py_ne_int_str: "py_ne (PInt n) (PStr t)"
  by (simp add: py_ne_def)

text \<open>
  C10, as the code has it. The loop of \<^verbatim>\<open>test_readonly_fields\<close> compares with \<^verbatim>\<open>!=\<close> on
  the values, not on their string forms: it passes exactly when every read-only field is
  an attribute of the item, is a key of the payload, and the two values are unequal.
  Hence where the stored and the attempted value are unequal and have the same string
  form, as an integer and its decimal string, the read-only check passes, while the
  stringwise comparison of \<^verbatim>\<open>assert_equal_item\<close> on the same field finds them equal.
\<close>

theorem readonly_check_is_direct_inequality:
  "(readonly_fields_loop item payload keys = Inr () \<longleftrightarrow>
      (\<forall>key \<in> set keys. \<exists>a d. py_getattr item key = Inr a \<and> py_getitem payload key = Inr d
         \<and> py_ne a d))
   \<and> py_ne (PInt n) (PStr (str_int n))
   \<and> py_str (PInt n) = py_str (PStr (str_int n))
   \<and> readonly_fields_loop [(k, PInt n)] [(k, PStr (str_int n))] [k] = Inr ()
   \<and> assert_equal_item_loop [(k, PInt n)] [(k, PStr (str_int n))] [k] = Inr ()"
  by (simp add: readonly_fields_loop_ok py_ne_int_str py_getattr_def py_getitem_def)

theorem readonly_check_is_direct_inequality_witness:
  "readonly_fields_loop [(''id'', PInt 7), (''name'', PStr ''a'')]
     [(''id'', PStr ''7''), (''name'', PStr ''b'')] [''id'', ''name''] = Inr ()"
proof -
  have "\<forall>key \<in> set [''id'', ''name'']. \<exists>a d.
      py_getattr [(''id'', PInt 7), (''name'', PStr ''a'')] key = Inr a
      \<and> py_getitem [(''id'', PStr ''7''), (''name'', PStr ''b'')] key = Inr d \<and> py_ne a d"
    by (simp add: py_getattr_def py_getitem_def py_ne_def)
  with readonly_check_is_direct_inequality
    [of "[(''id'', PInt 7), (''name'', PStr ''a'')]" "[(''id'', PStr ''7''), (''name'', PStr ''b'')]"
        "[''id'', ''name'']"]
  show ?thesis by blast
qed

text \<open>
  C10 as stated fails: a difference of type with equal string forms does not make two
  values unequal. A stored \<^verbatim>\<open>Decimal(7)\<close> and an attempted \<^verbatim>\<open>7\<close> differ in type, print
  the same and are equal, so the read-only check raises \<^verbatim>\<open>AssertionError\<close>.
\<close>

theorem readonly_check_decimal_against_int:
  "py_type (PDecimal 7) \<noteq> py_type (PInt 7)
   \<and> py_str (PDecimal 7) = py_str (PInt 7)
   \<and> readonly_fields_loop [(''price'', PDecimal 7)] [(''price'', PInt 7)] [''price'']
       = Inl AssertionError"
  by (simp add: py_getattr_def py_getitem_def py_ne_def)

subsection \<open>The members that only raise\<close>


lemma unimplemented_members:
  "test_create = Inl NotImplementedError \<and> test_list_by_owner = Inl NotImplementedError
   \<and> test_delete = Inl NotImplementedError \<and> NotImplementedError \<noteq> AssertionError"
  by (simp add: test_create_def test_list_by_owner_def test_delete_def)


subsection \<open>Evaluating the concrete suite\<close>

lemma str_nat_0: "str_nat 0 = ''0''"
  by (simp add: str_nat.simps digit_char_def)

lemma str_nat_1: "str_nat (Suc 0) = ''1''"
  by (simp add: str_nat.simps digit_char_def)

lemmas profile_defs =
  profile_tester_def world0_def profile_uuid4_def profile_create_def profile_get_def
  profile_create_payload_def profile_update_payload_def profile_reverse_def profile_api_def
  py_getattr_def py_getitem_def dict_keys_def str_nat_0 str_nat_1 str_int_1 Let_def

subsection \<open>\<^verbatim>\<open>Endpoint.set_user\<close>\<close>

text \<open>
  C1, as the code has it. After \<^verbatim>\<open>set_user\<close> with an identity, every call of the
  accessor (\<^verbatim>\<open>get\<close>, \<^verbatim>\<open>get_items\<close>, \<^verbatim>\<open>post\<close>, \<^verbatim>\<open>put\<close>, \<^verbatim>\<open>delete\<close>) hands the API a
  request attributed to that identity. \<^verbatim>\<open>set_user\<close> with \<^verbatim>\<open>None\<close> changes nothing: the
  calls that follow are anonymous when no identity was set before, as on a fresh
  accessor. The base name is never touched: the only effect is on the authentication
  state of the client.
\<close>

theorem set_user_effect:
  "get t (set_user ep (Some u)) pk w =
     api t \<lparr>req_method = GET, req_url = detail_url t ep pk, req_body = None, req_user = Some u\<rparr> w
   \<and> get_items t (set_user ep (Some u)) w =
     api t \<lparr>req_method = GET, req_url = list_url t ep, req_body = None, req_user = Some u\<rparr> w
   \<and> post t (set_user ep (Some u)) p w =
     api t \<lparr>req_method = POST, req_url = list_url t ep, req_body = Some p, req_user = Some u\<rparr> w
   \<and> put t (set_user ep (Some u)) pk p w =
     api t \<lparr>req_method = PUT, req_url = detail_url t ep pk, req_body = Some p, req_user = Some u\<rparr> w
   \<and> delete t (set_user ep (Some u)) pk w =
     api t \<lparr>req_method = DELETE, req_url = detail_url t ep pk, req_body = None, req_user = Some u\<rparr> w
   \<and> set_user ep None = ep
   \<and> req_user (client_request (client (set_user (Endpoint b) None)) m url body) = None
   \<and> basename (set_user ep user) = basename ep"
  by (simp add: get_def get_items_def post_def put_def delete_def set_user_def client_request_def
      detail_url_def list_url_def force_authenticate_def Endpoint_def APIClient_def)

text \<open>
  C1 as stated fails: after \<^verbatim>\<open>set_user\<close> with an identity, \<^verbatim>\<open>set_user(None)\<close> does not
  make the calls anonymous; the request still carries the identity set earlier.
\<close>

theorem set_user_none_keeps_identity:
  "req_user (client_request
      (client (set_user
         (set_user (Endpoint ''profile'')
            (Some \<lparr>uuid = ''u0'', email = ''foo@example.com'', groups = [], is_active = True,
                   is_staff = False, subscription = []\<rparr>))
         None))
      GET ''/profile-detail/1/'' None)
   = Some \<lparr>uuid = ''u0'', email = ''foo@example.com'', groups = [], is_active = True,
            is_staff = False, subscription = []\<rparr>"
  by (simp add: set_user_def client_request_def force_authenticate_def Endpoint_def APIClient_def)

subsection \<open>\<^verbatim>\<open>RestTester.auth_user\<close>\<close>

text \<open>
  What \<^verbatim>\<open>auth_user\<close> builds from an identifier that is true in Python, or from none:
  the string form of the supplied identifier, or of a fresh \<^verbatim>\<open>uuid4()\<close>; the supplied
  email, \<^verbatim>\<open>foo@example.com\<close> by default; no groups; \<^verbatim>\<open>is_active\<close> true; \<^verbatim>\<open>is_staff\<close>
  false; and the supplied subscription.
\<close>

lemma auth_user_fields:
  "auth_user t user_id e s w = (u, w') \<Longrightarrow>
     (py_bool user_id \<longrightarrow> uuid u = py_str user_id)
     \<and> (user_id = PNone \<longrightarrow> uuid u = fst (uuid4 t w))
     \<and> email u = (case e of None \<Rightarrow> ''foo@example.com'' | Some a \<Rightarrow> a)
     \<and> groups u = [] \<and> is_active u \<and> \<not> is_staff u
     \<and> (s = Some d \<longrightarrow> subscription u = d)"
  by (auto simp: auth_user_def Let_def split: prod.splits if_splits)

text \<open>
  C8 fails on the code for a supplied identifier that is false in Python:
  \<^verbatim>\<open>user_id or uuid.uuid4()\<close> drops it. With \<^verbatim>\<open>user_id=0\<close> the identity carries the fresh
  identifier that \<^verbatim>\<open>uuid4()\<close> returns, not the supplied \<^verbatim>\<open>0\<close>.
\<close>

theorem auth_user_falsy_id:
  "uuid (fst (auth_user profile_tester (PInt 0) None None world0))
     = fst (uuid4 profile_tester world0)
   \<and> uuid (fst (auth_user profile_tester (PInt 0) None None world0)) = ''u0''
   \<and> py_str (PInt 0) = ''0''"
  by (simp add: auth_user_def profile_defs str_int_0)

subsection \<open>The test cases\<close>

lemma auth_user_PUuid:
  "auth_user t (PUuid x) None None w =
     (\<lparr>uuid = x, email = ''foo@example.com'', groups = [], is_active = True, is_staff = False,
       subscription = []\<rparr>, w)"
  by (simp add: auth_user_def)

lemma auth_user_PNone:
  "uuid4 t w = (x, w1) \<Longrightarrow> auth_user t PNone None None w =
     (\<lparr>uuid = x, email = ''foo@example.com'', groups = [], is_active = True, is_staff = False,
       subscription = []\<rparr>, w1)"
  by (simp add: auth_user_def)

lemma get_setup:
  "get t (set_user (setup_method t) user) pk w =
     api t \<lparr>req_method = GET, req_url = reverse t (BASENAME t @ ''-detail'') (Some pk),
            req_body = None, req_user = user\<rparr> w"
  by (cases user) (simp_all add: get_def set_user_def client_request_def detail_url_def
      force_authenticate_def Endpoint_def APIClient_def setup_method_def)

lemma put_setup:
  "put t (set_user (setup_method t) user) pk p w =
     api t \<lparr>req_method = PUT, req_url = reverse t (BASENAME t @ ''-detail'') (Some pk),
            req_body = Some p, req_user = user\<rparr> w"
  by (cases user) (simp_all add: put_def set_user_def client_request_def detail_url_def
      force_authenticate_def Endpoint_def APIClient_def setup_method_def)

lemma get_setup_anonymous:
  "get t (setup_method t) pk w =
     api t \<lparr>req_method = GET, req_url = reverse t (BASENAME t @ ''-detail'') (Some pk),
            req_body = None, req_user = None\<rparr> w"
  by (simp add: get_def client_request_def detail_url_def Endpoint_def APIClient_def
      setup_method_def)

lemma update_eq:
  assumes "get_create_payload t (AUTH_USER_MODEL_id t owner) w = (payload, w1)"
    and "MODEL_objects_create t payload w1 = (item, w2)"
    and "get_update_payload t payload readonly w2 = (payload', w3)"
    and "py_getattr item ''id'' = Inr pk"
    and "api t \<lparr>req_method = PUT, req_url = reverse t (BASENAME t @ ''-detail'') (Some pk),
                req_body = Some payload', req_user = user\<rparr> w3 = (response, w4)"
  shows "update t (setup_method t) owner user readonly w = Inr ((pk, payload', response), w4)"
  using assms by (simp add: update_def put_setup)

text \<open>
  C5, as the code has it. \<^verbatim>\<open>test_get_by_owner\<close> draws an owner identifier, persists the
  item built from \<^verbatim>\<open>get_create_payload\<close> for that owner, and sends a \<^verbatim>\<open>GET\<close> on the
  detail URL of the item, attributed to the identity with that identifier. The test
  passes exactly when the response has status 200 and, for every key of the response
  body, the string form of the persisted item's attribute equals the string form of the
  body's value. The library asserts this round trip; it holds of the APIs that pass.
\<close>

theorem test_get_by_owner_iff:
  assumes "uuid4 t w = (x, w1)"
    and "get_create_payload t (PUuid x) w1 = (payload, w2)"
    and "MODEL_objects_create t payload w2 = (item, w3)"
    and "py_getattr item ''id'' = Inr pk"
    and "api t \<lparr>req_method = GET, req_url = reverse t (BASENAME t @ ''-detail'') (Some pk),
                req_body = None,
                req_user = Some \<lparr>uuid = x, email = ''foo@example.com'', groups = [],
                                 is_active = True, is_staff = False, subscription = []\<rparr>\<rparr> w3
         = (response, w4)"
  shows "test_get_by_owner t w = Inr () \<longleftrightarrow>
           status_code response = 200
           \<and> (\<forall>key \<in> set (dict_keys (data response)). \<exists>a d. py_getattr item key = Inr a
                 \<and> py_getitem (data response) key = Inr d \<and> py_str a = py_str d)"
  using assms
  by (simp add: test_get_by_owner_def auth_user_PUuid get_setup assert_equal_item_def assert_equal_item_loop_ok)

theorem test_get_by_owner_iff_witness:
  "test_get_by_owner profile_tester world0 = Inr ()"
proof -
  let ?P = "[(''user_id'', PStr ''u0''), (''name'', PStr ''first'')]"
  let ?I = "[(''user_id'', PStr ''u0''), (''name'', PStr ''first''), (''id'', PInt 1)]"
  let ?W1 = "\<lparr>db = [], counter = 1\<rparr>"
  let ?W3 = "\<lparr>db = [?I], counter = 1\<rparr>"
  let ?R = "\<lparr>status_code = 200, data = ?I\<rparr>"
  have h1: "uuid4 profile_tester world0 = (''u0'', ?W1)"
    by (simp add: profile_defs)
  have h2: "get_create_payload profile_tester (PUuid ''u0'') ?W1 = (?P, ?W1)"
    by (simp add: profile_defs)
  have h3: "MODEL_objects_create profile_tester ?P ?W1 = (?I, ?W3)"
    by (simp add: profile_defs)
  have h4: "py_getattr ?I ''id'' = Inr (PInt 1)"
    by (simp add: profile_defs)
  have h5: "api profile_tester
      \<lparr>req_method = GET,
       req_url = reverse profile_tester (BASENAME profile_tester @ ''-detail'') (Some (PInt 1)),
       req_body = None,
       req_user = Some \<lparr>uuid = ''u0'', email = ''foo@example.com'', groups = [],
                        is_active = True, is_staff = False, subscription = []\<rparr>\<rparr> ?W3
      = (?R, ?W3)"
    by (simp add: profile_defs)
  have rhs: "status_code ?R = 200
      \<and> (\<forall>key \<in> set (dict_keys (data ?R)). \<exists>a d. py_getattr ?I key = Inr a
            \<and> py_getitem (data ?R) key = Inr d \<and> py_str a = py_str d)"
    by (simp add: profile_defs)
  from test_get_by_owner_iff [OF h1 h2 h3 h4 h5] rhs show ?thesis by blast
qed

text \<open>
  C5 as stated fails: the round trip is not a law of every API. In front of an API that
  answers 500, the item is persisted, the \<^verbatim>\<open>GET\<close> as its owner returns status 500, and
  the test fails with \<^verbatim>\<open>AssertionError\<close>.
\<close>

theorem round_trip_not_guaranteed:
  "status_code (fst (get unavailable_tester
      (set_user (setup_method unavailable_tester)
         (Some \<lparr>uuid = ''u0'', email = ''foo@example.com'', groups = [], is_active = True,
                is_staff = False, subscription = []\<rparr>))
      (PInt 1)
      \<lparr>db = [[(''user_id'', PStr ''u0''), (''name'', PStr ''first''), (''id'', PInt 1)]],
       counter = 1\<rparr>)) = 500
   \<and> test_get_by_owner unavailable_tester world0 = Inl AssertionError"
  by (simp add: test_get_by_owner_def auth_user_def get_setup unavailable_tester_def
      profile_defs)

text \<open>
  C4. \<^verbatim>\<open>test_anonymous_user_not_allowed\<close> persists an item and sends a \<^verbatim>\<open>GET\<close> on its
  detail URL with no identity; it passes exactly when the status is 401.
  \<^verbatim>\<open>test_get_non_owner_not_allowed\<close> persists an item for one drawn identifier and sends
  the \<^verbatim>\<open>GET\<close> attributed to the identity of a second drawn identifier; it passes exactly
  when the status is 403.
\<close>

theorem test_get_denied_iff:
  assumes "get_create_payload t PNone w = (payload, w1)"
    and "MODEL_objects_create t payload w1 = (item, w2)"
    and "py_getattr item ''id'' = Inr pk"
    and "api t \<lparr>req_method = GET, req_url = reverse t (BASENAME t @ ''-detail'') (Some pk),
                req_body = None, req_user = None\<rparr> w2 = (response, w3)"
    and "uuid4 t w = (x, v1)"
    and "get_create_payload t (PUuid x) v1 = (payload', v2)"
    and "MODEL_objects_create t payload' v2 = (item', v3)"
    and "uuid4 t v3 = (y, v4)"
    and "py_getattr item' ''id'' = Inr pk'"
    and "api t \<lparr>req_method = GET, req_url = reverse t (BASENAME t @ ''-detail'') (Some pk'),
                req_body = None,
                req_user = Some \<lparr>uuid = y, email = ''foo@example.com'', groups = [],
                                 is_active = True, is_staff = False, subscription = []\<rparr>\<rparr> v4
         = (response', v5)"
  shows "(test_anonymous_user_not_allowed t w = Inr () \<longleftrightarrow> status_code response = 401)
       \<and> (test_get_non_owner_not_allowed t w = Inr () \<longleftrightarrow> status_code response' = 403)"
  using assms
  by (simp add: test_anonymous_user_not_allowed_def test_get_non_owner_not_allowed_def
      auth_user_PUuid get_setup get_setup_anonymous)

theorem test_get_denied_iff_witness:
  "test_anonymous_user_not_allowed profile_tester world0 = Inr ()
   \<and> test_get_non_owner_not_allowed profile_tester world0 = Inr ()"
proof -
  let ?P = "[(''user_id'', PStr ''u0''), (''name'', PStr ''first'')]"
  let ?I = "[(''user_id'', PStr ''u0''), (''name'', PStr ''first''), (''id'', PInt 1)]"
  let ?W1 = "\<lparr>db = [], counter = 1\<rparr>"
  let ?W3 = "\<lparr>db = [?I], counter = 1\<rparr>"
  let ?W4 = "\<lparr>db = [?I], counter = 2\<rparr>"
  let ?R = "\<lparr>status_code = 401, data = []\<rparr>"
  let ?R' = "\<lparr>status_code = 403, data = []\<rparr>"
  have a1: "get_create_payload profile_tester PNone world0 = (?P, ?W1)"
    by (simp add: profile_defs)
  have a2: "MODEL_objects_create profile_tester ?P ?W1 = (?I, ?W3)"
    by (simp add: profile_defs)
  have a3: "py_getattr ?I ''id'' = Inr (PInt 1)"
    by (simp add: profile_defs)
  have a4: "api profile_tester
      \<lparr>req_method = GET,
       req_url = reverse profile_tester (BASENAME profile_tester @ ''-detail'') (Some (PInt 1)),
       req_body = None, req_user = None\<rparr> ?W3 = (?R, ?W3)"
    by (simp add: profile_defs)
  have b1: "uuid4 profile_tester world0 = (''u0'', ?W1)"
    by (simp add: profile_defs)
  have b2: "get_create_payload profile_tester (PUuid ''u0'') ?W1 = (?P, ?W1)"
    by (simp add: profile_defs)
  have b4: "uuid4 profile_tester ?W3 = (''u1'', ?W4)"
    by (simp add: profile_defs)
  have b6: "api profile_tester
      \<lparr>req_method = GET,
       req_url = reverse profile_tester (BASENAME profile_tester @ ''-detail'') (Some (PInt 1)),
       req_body = None,
       req_user = Some \<lparr>uuid = ''u1'', email = ''foo@example.com'', groups = [],
                        is_active = True, is_staff = False, subscription = []\<rparr>\<rparr> ?W4
      = (?R', ?W4)"
    by (simp add: profile_defs)
  have rhs: "status_code ?R = 401 \<and> status_code ?R' = 403"
    by simp
  from test_get_denied_iff [OF a1 a2 a3 a4 b1 b2 a2 b4 a3 b6] rhs show ?thesis by blast
qed

text \<open>
  C6. \<^verbatim>\<open>test_put_owner\<close> builds an owner, persists the item of
  \<^verbatim>\<open>get_create_payload(owner.id)\<close>, builds the update payload with \<^verbatim>\<open>readonly=False\<close> and
  sends it with \<^verbatim>\<open>PUT\<close> on the detail URL, attributed to the owner. The test passes
  exactly when the status is 200 and the item fetched again by its identifier matches
  the update payload, stringwise, on every key of the payload.
\<close>

theorem test_put_owner_iff:
  assumes "uuid4 t w = (x, w0)"
    and "owner = \<lparr>uuid = x, email = ''foo@example.com'', groups = [], is_active = True,
                  is_staff = False, subscription = []\<rparr>"
    and "get_create_payload t (AUTH_USER_MODEL_id t owner) w0 = (payload, w1)"
    and "MODEL_objects_create t payload w1 = (item, w2)"
    and "get_update_payload t payload False w2 = (payload', w3)"
    and "py_getattr item ''id'' = Inr pk"
    and "api t \<lparr>req_method = PUT, req_url = reverse t (BASENAME t @ ''-detail'') (Some pk),
                req_body = Some payload', req_user = Some owner\<rparr> w3 = (response, w4)"
    and "MODEL_objects_get t pk w4 = (item', w5)"
  shows "test_put_owner t w = Inr () \<longleftrightarrow>
           status_code response = 200
           \<and> (\<forall>key \<in> set (dict_keys payload'). \<exists>a d. py_getattr item' key = Inr a
                 \<and> py_getitem payload' key = Inr d \<and> py_str a = py_str d)"
proof -
  have "auth_user t PNone None None w = (owner, w0)"
    using assms(1,2) by (simp add: auth_user_PNone)
  moreover have "update t (setup_method t) owner (Some owner) False w0
      = Inr ((pk, payload', response), w4)"
    using assms(3-7) by (rule update_eq)
  ultimately show ?thesis
    using assms(8) by (simp add: test_put_owner_def assert_equal_item_def assert_equal_item_loop_ok)
qed

theorem test_put_owner_iff_witness:
  "test_put_owner profile_tester world0 = Inr ()"
proof -
  let ?O = "\<lparr>uuid = ''u0'', email = ''foo@example.com'', groups = [], is_active = True,
             is_staff = False, subscription = []\<rparr>"
  let ?P = "[(''user_id'', PStr ''u0''), (''name'', PStr ''first'')]"
  let ?P' = "[(''user_id'', PStr ''u0''), (''name'', PStr ''second'')]"
  let ?I = "[(''user_id'', PStr ''u0''), (''name'', PStr ''first''), (''id'', PInt 1)]"
  let ?I' = "[(''user_id'', PStr ''u0''), (''name'', PStr ''second''), (''id'', PInt 1)]"
  let ?W1 = "\<lparr>db = [], counter = 1\<rparr>"
  let ?W3 = "\<lparr>db = [?I], counter = 1\<rparr>"
  let ?W4 = "\<lparr>db = [?I'], counter = 1\<rparr>"
  let ?R = "\<lparr>status_code = 200, data = ?I'\<rparr>"
  have h1: "uuid4 profile_tester world0 = (''u0'', ?W1)"
    by (simp add: profile_defs)
  have h2: "?O = ?O" ..
  have h3: "get_create_payload profile_tester (AUTH_USER_MODEL_id profile_tester ?O) ?W1 = (?P, ?W1)"
    by (simp add: profile_defs)
  have h4: "MODEL_objects_create profile_tester ?P ?W1 = (?I, ?W3)"
    by (simp add: profile_defs)
  have h5: "get_update_payload profile_tester ?P False ?W3 = (?P', ?W3)"
    by (simp add: profile_defs)
  have h6: "py_getattr ?I ''id'' = Inr (PInt 1)"
    by (simp add: profile_defs)
  have h7: "api profile_tester
      \<lparr>req_method = PUT,
       req_url = reverse profile_tester (BASENAME profile_tester @ ''-detail'') (Some (PInt 1)),
       req_body = Some ?P', req_user = Some ?O\<rparr> ?W3 = (?R, ?W4)"
    by (simp add: profile_defs)
  have h8: "MODEL_objects_get profile_tester (PInt 1) ?W4 = (?I', ?W4)"
    by (simp add: profile_defs)
  have rhs: "status_code ?R = 200
      \<and> (\<forall>key \<in> set (dict_keys ?P'). \<exists>a d. py_getattr ?I' key = Inr a
            \<and> py_getitem ?P' key = Inr d \<and> py_str a = py_str d)"
    by (simp add: profile_defs)
  from test_put_owner_iff [OF h1 h2 h3 h4 h5 h6 h7 h8] rhs show ?thesis by blast
qed

text \<open>
  C3. \<^verbatim>\<open>test_readonly_fields\<close> does the same update with \<^verbatim>\<open>readonly=True\<close>. The test
  passes exactly when the status is 200, every field of \<^verbatim>\<open>READONLY_FIELDS\<close> on the
  item fetched again exists and differs (\<^verbatim>\<open>!=\<close>) from the value the payload attempted,
  and the model has exactly one item afterwards.
\<close>

theorem test_readonly_fields_iff:
  assumes "uuid4 t w = (x, w0)"
    and "owner = \<lparr>uuid = x, email = ''foo@example.com'', groups = [], is_active = True,
                  is_staff = False, subscription = []\<rparr>"
    and "get_create_payload t (AUTH_USER_MODEL_id t owner) w0 = (payload, w1)"
    and "MODEL_objects_create t payload w1 = (item, w2)"
    and "get_update_payload t payload True w2 = (payload', w3)"
    and "py_getattr item ''id'' = Inr pk"
    and "api t \<lparr>req_method = PUT, req_url = reverse t (BASENAME t @ ''-detail'') (Some pk),
                req_body = Some payload', req_user = Some owner\<rparr> w3 = (response, w4)"
    and "MODEL_objects_get t pk w4 = (item', w5)"
  shows "test_readonly_fields t w = Inr () \<longleftrightarrow>
           status_code response = 200
           \<and> (\<forall>key \<in> set (READONLY_FIELDS t). \<exists>a d. py_getattr item' key = Inr a
                 \<and> py_getitem payload' key = Inr d \<and> py_ne a d)
           \<and> length (MODEL_objects_all t w5) = 1"
proof -
  have "auth_user t PNone None None w = (owner, w0)"
    using assms(1,2) by (simp add: auth_user_PNone)
  moreover have "update t (setup_method t) owner (Some owner) True w0
      = Inr ((pk, payload', response), w4)"
    using assms(3-7) by (rule update_eq)
  ultimately show ?thesis
    using assms(8) readonly_fields_loop_ok [of item' payload' "READONLY_FIELDS t"]
    by (auto simp: test_readonly_fields_def split: sum.splits)
qed

theorem test_readonly_fields_iff_witness:
  "test_readonly_fields profile_tester world0 = Inr ()"
proof -
  let ?O = "\<lparr>uuid = ''u0'', email = ''foo@example.com'', groups = [], is_active = True,
             is_staff = False, subscription = []\<rparr>"
  let ?P = "[(''user_id'', PStr ''u0''), (''name'', PStr ''first'')]"
  let ?P' = "[(''user_id'', PStr ''intruder''), (''name'', PStr ''second'')]"
  let ?I = "[(''user_id'', PStr ''u0''), (''name'', PStr ''first''), (''id'', PInt 1)]"
  let ?I' = "[(''user_id'', PStr ''u0''), (''name'', PStr ''second''), (''id'', PInt 1)]"
  let ?W1 = "\<lparr>db = [], counter = 1\<rparr>"
  let ?W3 = "\<lparr>db = [?I], counter = 1\<rparr>"
  let ?W4 = "\<lparr>db = [?I'], counter = 1\<rparr>"
  let ?R = "\<lparr>status_code = 200, data = ?I'\<rparr>"
  have h1: "uuid4 profile_tester world0 = (''u0'', ?W1)"
    by (simp add: profile_defs)
  have h2: "?O = ?O" ..
  have h3: "get_create_payload profile_tester (AUTH_USER_MODEL_id profile_tester ?O) ?W1 = (?P, ?W1)"
    by (simp add: profile_defs)
  have h4: "MODEL_objects_create profile_tester ?P ?W1 = (?I, ?W3)"
    by (simp add: profile_defs)
  have h5: "get_update_payload profile_tester ?P True ?W3 = (?P', ?W3)"
    by (simp add: profile_defs)
  have h6: "py_getattr ?I ''id'' = Inr (PInt 1)"
    by (simp add: profile_defs)
  have h7: "api profile_tester
      \<lparr>req_method = PUT,
       req_url = reverse profile_tester (BASENAME profile_tester @ ''-detail'') (Some (PInt 1)),
       req_body = Some ?P', req_user = Some ?O\<rparr> ?W3 = (?R, ?W4)"
    by (simp add: profile_defs)
  have h8: "MODEL_objects_get profile_tester (PInt 1) ?W4 = (?I', ?W4)"
    by (simp add: profile_defs)
  have rhs: "status_code ?R = 200
      \<and> (\<forall>key \<in> set (READONLY_FIELDS profile_tester). \<exists>a d. py_getattr ?I' key = Inr a
            \<and> py_getitem ?P' key = Inr d \<and> py_ne a d)
      \<and> length (MODEL_objects_all profile_tester ?W4) = 1"
    by (simp add: profile_defs py_ne_def)
  from test_readonly_fields_iff [OF h1 h2 h3 h4 h5 h6 h7 h8] rhs show ?thesis by blast
qed

end
